theory Spec2Isabelle
  imports Main "HOL-Library.Word"
begin

section \<open>The VNC client of vncclient.go: data model\<close>

text \<open>
  The development embeds \<^verbatim>\<open>src/vncclient.go\<close>: the constructor \<^verbatim>\<open>NewClientConfig\<close>,
  the handshake driver \<^verbatim>\<open>Connect\<close>, \<^verbatim>\<open>ClientConn.Close\<close> and the dispatch loop
  \<^verbatim>\<open>ClientConn.ListenAndHandle\<close>. Go pointers to mutable objects become explicit state
  passing: a function that mutates \<^verbatim>\<open>*ClientConn\<close> takes the record and returns the new one.
\<close>

type_synonym byte = "8 word"

text \<open>
  Go's \<^verbatim>\<open>error\<close> interface. \<^verbatim>\<open>NewVNCError\<close> is declared outside the two source files;
  it wraps a message. \<open>EOF\<close> is \<^verbatim>\<open>io.EOF\<close>, \<open>NetError\<close> any other failure of the
  connection or of a collaborator.
\<close>

datatype error = VNCError string | EOF | NetError string

definition NewVNCError :: "string \<Rightarrow> error" where
  "NewVNCError s = VNCError s"

text \<open>
  The \<^verbatim>\<open>net.Conn\<close> handed to \<^verbatim>\<open>Connect\<close>, as far as this file uses it: the bytes the
  server still sends (a stream that ends, or fails, after finitely many bytes), and
  whether \<^verbatim>\<open>Close\<close> has been called on it.
\<close>

record NetConn =
  input :: "byte list"
  closed :: bool

text \<open>
  \<^verbatim>\<open>net.Conn.Close\<close>: marks the connection closed; closing twice reports an error.
\<close>

definition NetConn_Close :: "NetConn \<Rightarrow> error option \<times> NetConn" where
  "NetConn_Close nc =
     ((if closed nc then Some (NetError ''use of closed network connection'') else None),
      nc\<lparr>closed := True\<rparr>)"

text \<open>
  \<^verbatim>\<open>binary.Read(c.c, binary.BigEndian, &messageType)\<close> with \<^verbatim>\<open>messageType uint8\<close>:
  one byte is taken from the stream; a closed connection and the end of the stream are
  errors, and then nothing is consumed.
\<close>

definition readUint8 :: "NetConn \<Rightarrow> (error + byte) \<times> NetConn" where
  "readUint8 nc =
     (if closed nc then (Inl (NetError ''use of closed network connection''), nc)
      else (case input nc of
              [] \<Rightarrow> (Inl EOF, nc)
            | b # bs \<Rightarrow> (Inr b, nc\<lparr>input := bs\<rparr>)))"

text \<open>
  The implementations of the interface \<^verbatim>\<open>ClientAuth\<close> that the file names.
\<close>

datatype ClientAuth = ClientAuthNone | ClientAuthVNC string

text \<open>
  The implementations of the interface \<^verbatim>\<open>ServerMessage\<close>: the four message structs that
  \<^verbatim>\<open>NewClientConfig\<close> registers (each constructor is the empty prototype object of its
  struct; \<^verbatim>\<open>NewFramebufferUpdateMessage(nil)\<close> is the prototype without encodings), and
  \<open>OtherServerMessage\<close> for an implementation a caller brings. The code that handles
  messages is generic in the interface, so the configuration and the connection take
  the message type as a parameter \<open>'sm\<close>.
\<close>

datatype 'x ServerMessage =
    FramebufferUpdateMessage
  | SetColorMapEntriesMessage
  | BellMessage
  | ServerCutTextMessage
  | OtherServerMessage 'x

text \<open>
  A channel is referred to by a handle; \<open>None\<close> is Go's nil channel. A slice whose
  nil-ness the code inspects (\<^verbatim>\<open>ServerMessages\<close>) is an optional list, \<open>None\<close> being nil
  and \<open>Some []\<close> the empty non-nil slice.
\<close>

type_synonym chan = nat

record 'sm ClientConfig =
  Auth :: "ClientAuth list"
  Password :: string
  Exclusive :: bool
  ServerMessageCh :: "chan option"
  ServerMessages :: "'sm list option"

text \<open>
  Modelled from the spec: the types \<^verbatim>\<open>Color\<close> and \<^verbatim>\<open>PixelFormat\<close> of the fields of
  \<^verbatim>\<open>ClientConn\<close> are declared outside the two source files. The spec gives a color as
  red/green/blue of 16 bits each, and the pixel format as bits-per-pixel, depth,
  big-endian flag, true-color flag and per-channel maximum and shift.
\<close>

record Color =
  R :: "16 word"
  G :: "16 word"
  B :: "16 word"

record PixelFormat =
  BPP :: byte
  Depth :: byte
  BigEndian :: bool
  TrueColor :: bool
  RedMax :: "16 word"
  GreenMax :: "16 word"
  BlueMax :: "16 word"
  RedShift :: byte
  GreenShift :: byte
  BlueShift :: byte

definition zeroColor :: Color where
  "zeroColor = \<lparr>R = 0, G = 0, B = 0\<rparr>"

definition zeroPixelFormat :: PixelFormat where
  "zeroPixelFormat =
     \<lparr>BPP = 0, Depth = 0, BigEndian = False, TrueColor = False,
      RedMax = 0, GreenMax = 0, BlueMax = 0, RedShift = 0, GreenShift = 0, BlueShift = 0\<rparr>"

text \<open>
  \<^verbatim>\<open>type ClientConn struct\<close>. The interface \<^verbatim>\<open>Encoding\<close> is a type parameter \<open>'e\<close>;
  \<^verbatim>\<open>ColorMap [256]Color\<close> is a list of length 256.
\<close>

record ('sm, 'e) ClientConn =
  c :: NetConn
  config :: "'sm ClientConfig"
  protocolVersion :: string
  ColorMap :: "Color list"
  Encodings :: "'e list"
  FramebufferWidth :: "16 word"
  FramebufferHeight :: "16 word"
  desktopName :: string
  PixelFormat :: PixelFormat

section \<open>NewClientConfig\<close>

definition NewClientConfig :: "string \<Rightarrow> ('x ServerMessage) ClientConfig" where
  "NewClientConfig p =
     \<lparr>Auth = [ClientAuthNone, ClientAuthVNC p],
      Password = p,
      Exclusive = False,
      ServerMessageCh = None,
      ServerMessages =
        Some [FramebufferUpdateMessage, SetColorMapEntriesMessage, BellMessage,
              ServerCutTextMessage]\<rparr>"

section \<open>Close\<close>

text \<open>
  Standard output is the list of the strings written so far; \<^verbatim>\<open>fmt.Println\<close> appends a
  newline to its argument, \<^verbatim>\<open>fmt.Printf\<close> with a constant format writes it as it is.
\<close>

definition Println :: "string \<Rightarrow> string list \<Rightarrow> string list" where
  "Println s out = out @ [s @ [CHR 0x0A]]"

definition Printf :: "string \<Rightarrow> string list \<Rightarrow> string list" where
  "Printf s out = out @ [s]"

definition Close ::
  "('sm, 'e) ClientConn \<Rightarrow> string list \<Rightarrow> error option \<times> ('sm, 'e) ClientConn \<times> string list"
where
  "Close cn out =
     (let out1 = Println ''VNC Client connection closed.'' out;
          (e, nc) = NetConn_Close (c cn)
      in (e, cn\<lparr>c := nc\<rparr>, out1))"

section \<open>Connect\<close>

text \<open>
  The five handshake methods of \<^verbatim>\<open>ClientConn\<close> are declared outside the two source
  files. \<^verbatim>\<open>Connect\<close> takes them as a parameter: each receives the connection object,
  may change it (it reads from and writes to the stream and fills in the session's
  fields) and returns an error or nil.
\<close>

type_synonym ('sm, 'e) step = "('sm, 'e) ClientConn \<Rightarrow> error option \<times> ('sm, 'e) ClientConn"

record ('sm, 'e) Handshake =
  protocolVersionHandshake :: "('sm, 'e) step"
  securityHandshake :: "('sm, 'e) step"
  securityResultHandshake :: "('sm, 'e) step"
  clientInit :: "('sm, 'e) step"
  serverInit :: "('sm, 'e) step"

text \<open>
  What the caller of \<^verbatim>\<open>Connect\<close> observes: the returned pair \<^verbatim>\<open>(*ClientConn, error)\<close>,
  the state of the \<^verbatim>\<open>net.Conn\<close> it passed in, and standard output.
\<close>

record ('sm, 'e) Connected =
  session :: "('sm, 'e) ClientConn option"
  err :: "error option"
  netconn :: NetConn
  conn_stdout :: "string list"

text \<open>
  The body of each failure branch of \<^verbatim>\<open>Connect\<close>:
  \<^verbatim>\<open>conn.Close(); return nil, err\<close> (the error that \<^verbatim>\<open>Close\<close> returns is dropped).
\<close>

definition failed ::
  "error \<Rightarrow> ('sm, 'e) ClientConn \<Rightarrow> string list \<Rightarrow> ('sm, 'e) Connected"
where
  "failed e cn out =
     (let (_, cn', out') = Close cn out
      in \<lparr>session = None, err = Some e, netconn = c cn', conn_stdout = out'\<rparr>)"

text \<open>
  The composite literal \<^verbatim>\<open>&ClientConn{c: c, config: cfg}\<close>: every other field has its
  zero value.
\<close>

definition newClientConn :: "NetConn \<Rightarrow> 'sm ClientConfig \<Rightarrow> ('sm, 'e) ClientConn" where
  "newClientConn nc cfg =
     \<lparr>c = nc, config = cfg, protocolVersion = [],
      ColorMap = replicate 256 zeroColor, Encodings = [],
      FramebufferWidth = 0, FramebufferHeight = 0, desktopName = [],
      PixelFormat = zeroPixelFormat\<rparr>"

definition Connect ::
  "('sm, 'e) Handshake \<Rightarrow> 'ctx \<Rightarrow> NetConn \<Rightarrow> 'sm ClientConfig \<Rightarrow> string list
     \<Rightarrow> ('sm, 'e) Connected"
where
  "Connect hs ctx nc cfg out =
     (let conn = newClientConn nc cfg
      in case protocolVersionHandshake hs conn of
           (Some e, conn) \<Rightarrow> failed e conn out
         | (None, conn) \<Rightarrow>
      (case securityHandshake hs conn of
           (Some e, conn) \<Rightarrow> failed e conn out
         | (None, conn) \<Rightarrow>
      (case securityResultHandshake hs conn of
           (Some e, conn) \<Rightarrow> failed e conn out
         | (None, conn) \<Rightarrow>
      (case clientInit hs conn of
           (Some e, conn) \<Rightarrow> failed e conn out
         | (None, conn) \<Rightarrow>
      (case serverInit hs conn of
           (Some e, conn) \<Rightarrow> failed e conn out
         | (None, conn) \<Rightarrow>
             \<lparr>session = Some conn, err = None, netconn = c conn, conn_stdout = out\<rparr>)))))"

section \<open>ListenAndHandle\<close>

text \<open>
  The methods of the interface \<^verbatim>\<open>ServerMessage\<close> are parameters of the dispatch loop:
  \<open>Type m\<close> is \<^verbatim>\<open>m.Type()\<close>, and \<open>Read m cn\<close> is \<^verbatim>\<open>m.Read(c, c.c)\<close> called with the
  stream of \<open>cn\<close> positioned behind the type byte. \<open>Read\<close> returns the number of bytes
  it took from the stream, the connection object as it leaves it, and the decoded
  message or an error. The type \<open>'p\<close> of decoded messages is kept apart from the type
  \<open>'sm\<close> of the registered prototypes (in Go both are \<^verbatim>\<open>ServerMessage\<close>).

  A decoder reaches the stream through an \<^verbatim>\<open>io.Reader\<close>, which can only consume bytes,
  and the configuration is not modified once it is in use (doc comment of
  \<^verbatim>\<open>ClientConfig\<close>): the loop therefore continues with the session fields that the
  decoder left, on the stream advanced by the count it returned, with the configuration
  unchanged.
\<close>

type_synonym ('sm, 'e, 'p) reader =
  "'sm \<Rightarrow> ('sm, 'e) ClientConn \<Rightarrow> nat \<times> ('sm, 'e) ClientConn \<times> (error + 'p)"

text \<open>
  The state that \<^verbatim>\<open>ListenAndHandle\<close> works on: the connection object, standard output,
  and the messages sent on \<^verbatim>\<open>config.ServerMessageCh\<close>, oldest first (a Go channel is
  first-in first-out, so this is the order in which the consumer receives them; the
  consumer is taken to receive every message, a send that blocks forever is outside
  the model).
\<close>

record ('sm, 'e, 'p) Run =
  conn :: "('sm, 'e) ClientConn"
  stdout :: "string list"
  delivered :: "'p list"

text \<open>
  Lines 141 to 144: the lookup table, filled in the order of the configured slice, a
  later message replacing an earlier one of the same type code.
\<close>

definition serverMessages :: "('sm \<Rightarrow> byte) \<Rightarrow> 'sm list \<Rightarrow> (byte \<rightharpoonup> 'sm)" where
  "serverMessages Type ms = foldl (\<lambda>tbl m. tbl(Type m \<mapsto> m)) Map.empty ms"

text \<open>The stream after a decoder has taken \<open>k\<close> bytes from it.\<close>

definition advance :: "nat \<Rightarrow> NetConn \<Rightarrow> NetConn" where
  "advance k nc = nc\<lparr>input := drop k (input nc)\<rparr>"

text \<open>Lines 146 to 172: the \<^verbatim>\<open>for\<close> loop; each \<^verbatim>\<open>break\<close> returns the state.\<close>

function dispatch ::
  "('sm, 'e, 'p) reader \<Rightarrow> (byte \<rightharpoonup> 'sm) \<Rightarrow> ('sm, 'e, 'p) Run \<Rightarrow> ('sm, 'e, 'p) Run"
where
  "dispatch Read tbl s =
     (case readUint8 (c (conn s)) of
        (Inl e, nc) \<Rightarrow>
          s\<lparr>conn := (conn s)\<lparr>c := nc\<rparr>,
            stdout := Println ''error: reading from server'' (stdout s)\<rparr>
      | (Inr messageType, nc) \<Rightarrow>
          (case tbl messageType of
             None \<Rightarrow>
               s\<lparr>conn := (conn s)\<lparr>c := nc\<rparr>,
                 stdout := Printf ''error: unsupported message type'' (stdout s)\<rparr>
           | Some msg \<Rightarrow>
               (case Read msg ((conn s)\<lparr>c := nc\<rparr>) of
                  (k, cn, res) \<Rightarrow>
                    (let cn' = cn\<lparr>c := advance k nc, config := config (conn s)\<rparr>
                     in case res of
                          Inl e \<Rightarrow>
                            s\<lparr>conn := cn',
                              stdout := Println ''error: parsing message'' (stdout s)\<rparr>
                        | Inr parsedMsg \<Rightarrow>
                            (case ServerMessageCh (config cn') of
                               None \<Rightarrow>
                                 dispatch Read tbl
                                   (s\<lparr>conn := cn',
                                      stdout :=
                                        Println ''ignoring message; no server message channel''
                                          (stdout s)\<rparr>)
                             | Some ch \<Rightarrow>
                                 dispatch Read tbl
                                   (s\<lparr>conn := cn',
                                      delivered := delivered s @ [parsedMsg]\<rparr>))))))"
  by pat_completeness auto
termination
proof (relation "measure (\<lambda>(Read, tbl, s). length (input (c (conn s))))")
qed (auto simp: advance_def readUint8_def split: if_splits list.splits)

declare dispatch.simps [simp del]

text \<open>
  \<^verbatim>\<open>ListenAndHandle\<close>: the deferred \<^verbatim>\<open>c.Close()\<close> runs when the function returns, on
  either path; the error that \<^verbatim>\<open>Close\<close> returns is dropped.
\<close>

definition deferred_Close :: "('sm, 'e, 'p) Run \<Rightarrow> ('sm, 'e, 'p) Run" where
  "deferred_Close s =
     (let (_, cn, out) = Close (conn s) (stdout s) in s\<lparr>conn := cn, stdout := out\<rparr>)"

definition ListenAndHandle ::
  "('sm \<Rightarrow> byte) \<Rightarrow> ('sm, 'e, 'p) reader \<Rightarrow> ('sm, 'e, 'p) Run
     \<Rightarrow> error option \<times> ('sm, 'e, 'p) Run"
where
  "ListenAndHandle Type Read s =
     (case ServerMessages (config (conn s)) of
        None \<Rightarrow>
          (Some (NewVNCError ''Client config error: ServerMessages undefined''),
           deferred_Close s)
      | Some ms \<Rightarrow>
          (None, deferred_Close (dispatch Read (serverMessages Type ms) s)))"


section \<open>Specification-side notions\<close>

text \<open>
  Running a list of handshake steps in the order of the list: each step starts from the
  connection object its predecessor left, and the first error ends the run.
\<close>

fun handshake_in_order ::
  "('sm, 'e) step list \<Rightarrow> ('sm, 'e) ClientConn \<Rightarrow> error option \<times> ('sm, 'e) ClientConn"
where
  "handshake_in_order [] cn = (None, cn)"
| "handshake_in_order (st # sts) cn =
     (case st cn of
        (Some e, cn') \<Rightarrow> (Some e, cn')
      | (None, cn') \<Rightarrow> handshake_in_order sts cn')"

text \<open>
  The wire format the dispatch loop expects. \<open>wire tbl Read cn ps cn'\<close>: the stream of
  the open connection \<open>cn\<close> starts with well-formed messages of registered types, one
  for each element of \<open>ps\<close>, and behind them the session is \<open>cn'\<close>. A well-formed
  message is a type byte \<open>t\<close> registered in \<open>tbl\<close>, followed by a body from which the
  registered decoder takes \<open>k\<close> bytes and returns a decoded message \<open>p\<close>.
\<close>

inductive wire ::
  "(byte \<rightharpoonup> 'sm) \<Rightarrow> ('sm, 'e, 'p) reader \<Rightarrow> ('sm, 'e) ClientConn \<Rightarrow> 'p list
     \<Rightarrow> ('sm, 'e) ClientConn \<Rightarrow> bool"
  for tbl :: "byte \<rightharpoonup> 'sm" and Read :: "('sm, 'e, 'p) reader"
where
  wire_end: "wire tbl Read cn [] cn"
| wire_message:
    "\<not> closed (c cn) \<Longrightarrow> input (c cn) = t # bs \<Longrightarrow> tbl t = Some m \<Longrightarrow>
     Read m (cn\<lparr>c := (c cn)\<lparr>input := bs\<rparr>\<rparr>) = (k, cn1, Inr p) \<Longrightarrow>
     wire tbl Read (cn1\<lparr>c := (c cn)\<lparr>input := drop k bs\<rparr>, config := config cn\<rparr>) ps cn' \<Longrightarrow>
     wire tbl Read cn (p # ps) cn'"

code_pred wire .

section \<open>Example instances\<close>

text \<open>
  Concrete collaborators on which the theorems below are evaluated. \<open>exType\<close> gives the
  four standard messages the type codes of RFC 6143 (0 to 3) and a caller's message
  the code it carries. \<open>exRead\<close> is a small decoder, not the repository's: a bell has
  no body, every other message has a length byte followed by that many bytes, which
  are the decoded message. \<open>exHandshake\<close> succeeds at every step unless the
  configuration offers no authentication method, in which case the security step fails.
\<close>

definition exType :: "byte ServerMessage \<Rightarrow> byte" where
  "exType m =
     (case m of
        FramebufferUpdateMessage \<Rightarrow> 0
      | SetColorMapEntriesMessage \<Rightarrow> 1
      | BellMessage \<Rightarrow> 2
      | ServerCutTextMessage \<Rightarrow> 3
      | OtherServerMessage x \<Rightarrow> x)"

definition exRead :: "(byte ServerMessage, 'e, byte list) reader" where
  "exRead m cn =
     (case m of
        BellMessage \<Rightarrow> (0, cn, Inr [])
      | _ \<Rightarrow>
          (case input (c cn) of
             [] \<Rightarrow> (0, cn, Inl EOF)
           | n # bs \<Rightarrow>
               if unat n \<le> length bs then (Suc (unat n), cn, Inr (take (unat n) bs))
               else (Suc (length bs), cn, Inl EOF)))"

definition exConfig :: "byte ServerMessage ClientConfig" where
  "exConfig = (NewClientConfig ''secret'')\<lparr>ServerMessageCh := Some 0\<rparr>"

definition exRun ::
  "byte ServerMessage ClientConfig \<Rightarrow> byte list \<Rightarrow> (byte ServerMessage, unit, byte list) Run"
where
  "exRun cfg bs =
     \<lparr>conn = newClientConn \<lparr>input = bs, closed = False\<rparr> cfg, stdout = [], delivered = []\<rparr>"

definition exHandshake :: "(byte ServerMessage, unit) Handshake" where
  "exHandshake =
     \<lparr>protocolVersionHandshake = (\<lambda>cn. (None, cn\<lparr>protocolVersion := ''RFB 003.008''\<rparr>)),
      securityHandshake =
        (\<lambda>cn. case Auth (config cn) of
                 [] \<Rightarrow> (Some (VNCError ''no supported security types''), cn)
               | a # as \<Rightarrow> (None, cn)),
      securityResultHandshake = (\<lambda>cn. (None, cn)),
      clientInit = (\<lambda>cn. (None, cn)),
      serverInit =
        (\<lambda>cn. (None, cn\<lparr>FramebufferWidth := 800, FramebufferHeight := 600,
                           desktopName := ''desktop''\<rparr>))\<rparr>"

section \<open>Connect: the handshake sequence\<close>

lemma Connect_unfold:
  "Connect hs ctx nc cfg out =
     (case handshake_in_order
             [protocolVersionHandshake hs, securityHandshake hs, securityResultHandshake hs,
              clientInit hs, serverInit hs]
             (newClientConn nc cfg) of
        (Some e, cn) \<Rightarrow> failed e cn out
      | (None, cn) \<Rightarrow> \<lparr>session = Some cn, err = None, netconn = c cn, conn_stdout = out\<rparr>)"
  by (simp add: Connect_def split: prod.splits option.splits)

lemma failed_fields:
  "session (failed e cn out) = None"
  "err (failed e cn out) = Some e"
  "closed (netconn (failed e cn out))"
  "input (netconn (failed e cn out)) = input (c cn)"
  "conn_stdout (failed e cn out) = out @ [''VNC Client connection closed.'' @ [CHR 0x0A]]"
  by (simp_all add: failed_def Close_def NetConn_Close_def Println_def split: prod.splits)

text \<open>
  Claim C1. \<^verbatim>\<open>Connect\<close> runs protocol version, security, security result, client init
  and server init in this order, each on the connection object its predecessor left,
  and stops at the first error. The error it returns is the error of that run (nil if
  every step succeeded), the session it returns is the object left by the fifth step
  if every step succeeded and nil otherwise; so the session is non-nil exactly when
  every step succeeds.
\<close>

theorem Connect_steps_in_order:
  "err (Connect hs ctx nc cfg out) =
     fst (handshake_in_order
            [protocolVersionHandshake hs, securityHandshake hs, securityResultHandshake hs,
             clientInit hs, serverInit hs]
            (newClientConn nc cfg)) \<and>
   session (Connect hs ctx nc cfg out) =
     (case handshake_in_order
             [protocolVersionHandshake hs, securityHandshake hs, securityResultHandshake hs,
              clientInit hs, serverInit hs]
             (newClientConn nc cfg) of
        (None, cn) \<Rightarrow> Some cn
      | (Some e, cn) \<Rightarrow> None) \<and>
   ((session (Connect hs ctx nc cfg out) \<noteq> None) =
    (err (Connect hs ctx nc cfg out) = None))"
  by (simp add: Connect_unfold failed_fields split: prod.splits option.splits)

text \<open>
  Claim C2. When a handshake step fails (the run of the five steps ends with an error
  \<open>e\<close>), \<^verbatim>\<open>Connect\<close> returns \<open>e\<close> with a nil session, and the connection the caller
  passed in is closed when \<^verbatim>\<open>Connect\<close> returns.
\<close>

theorem Connect_failure_closes:
  assumes "fst (handshake_in_order
                  [protocolVersionHandshake hs, securityHandshake hs,
                   securityResultHandshake hs, clientInit hs, serverInit hs]
                  (newClientConn nc cfg)) = Some e"
  shows "err (Connect hs ctx nc cfg out) = Some e \<and>
         session (Connect hs ctx nc cfg out) = None \<and>
         closed (netconn (Connect hs ctx nc cfg out))"
  using assms by (auto simp: Connect_unfold failed_fields split: prod.splits option.splits)

theorem Connect_failure_closes_witness:
  "fst (handshake_in_order
          [protocolVersionHandshake exHandshake, securityHandshake exHandshake,
           securityResultHandshake exHandshake, clientInit exHandshake, serverInit exHandshake]
          (newClientConn \<lparr>input = [], closed = False\<rparr> (exConfig\<lparr>Auth := []\<rparr>))) =
     Some (VNCError ''no supported security types'') \<and>
   err (Connect exHandshake () \<lparr>input = [], closed = False\<rparr> (exConfig\<lparr>Auth := []\<rparr>) []) =
     Some (VNCError ''no supported security types'') \<and>
   session (Connect exHandshake () \<lparr>input = [], closed = False\<rparr> (exConfig\<lparr>Auth := []\<rparr>) []) = None \<and>
   closed (netconn (Connect exHandshake () \<lparr>input = [], closed = False\<rparr> (exConfig\<lparr>Auth := []\<rparr>) []))"
proof -
  have fails:
    "fst (handshake_in_order
            [protocolVersionHandshake exHandshake, securityHandshake exHandshake,
             securityResultHandshake exHandshake, clientInit exHandshake, serverInit exHandshake]
            (newClientConn \<lparr>input = [], closed = False\<rparr> (exConfig\<lparr>Auth := []\<rparr>))) =
       Some (VNCError ''no supported security types'')"
    by (simp add: exHandshake_def newClientConn_def)
  from fails Connect_failure_closes [OF fails, of "()" "[]"] show ?thesis
    by simp
qed

section \<open>NewClientConfig\<close>

text \<open>
  Claim C10. For every password \<open>p\<close>, \<^verbatim>\<open>NewClientConfig(p)\<close> has the authentication
  list no-authentication, then VNC authentication with \<open>p\<close>; the password \<open>p\<close>; the
  message list framebuffer update, set-color-map-entries, bell, server-cut-text and
  nothing else; and no consumer channel.
\<close>

theorem NewClientConfig_contents:
  "Auth (NewClientConfig p) = [ClientAuthNone, ClientAuthVNC p] \<and>
   Password (NewClientConfig p) = p \<and>
   ServerMessages (NewClientConfig p) =
     Some [FramebufferUpdateMessage, SetColorMapEntriesMessage, BellMessage,
           ServerCutTextMessage] \<and>
   ServerMessageCh (NewClientConfig p) = None"
  by (simp add: NewClientConfig_def)


section \<open>ListenAndHandle: facts about the loop\<close>

inductive_simps wire_Nil_iff: "wire tbl Read cn [] cn'"

inductive_simps wire_Cons_iff: "wire tbl Read cn (p # ps) cn'"

lemma serverMessages_foldl:
  "foldl (\<lambda>tbl m. tbl(Type m \<mapsto> m)) tbl0 ms t = None \<longleftrightarrow>
     tbl0 t = None \<and> t \<notin> Type ` set ms"
  by (induction ms arbitrary: tbl0) auto

lemma serverMessages_None_iff:
  "serverMessages Type ms t = None \<longleftrightarrow> t \<notin> Type ` set ms"
  by (simp add: serverMessages_def serverMessages_foldl)

lemma deferred_Close_fields:
  "closed (c (conn (deferred_Close s)))"
  "input (c (conn (deferred_Close s))) = input (c (conn s))"
  "config (conn (deferred_Close s)) = config (conn s)"
  "delivered (deferred_Close s) = delivered s"
  "stdout (deferred_Close s) = stdout s @ [''VNC Client connection closed.'' @ [CHR 0x0A]]"
  by (simp_all add: deferred_Close_def Close_def NetConn_Close_def Println_def
      split: prod.splits)

lemma dispatch_read_fails:
  "closed (c (conn s)) \<or> input (c (conn s)) = [] \<Longrightarrow>
   dispatch Read tbl s =
     s\<lparr>stdout := stdout s @ [''error: reading from server'' @ [CHR 0x0A]]\<rparr>"
  by (subst dispatch.simps) (auto simp: readUint8_def Println_def)

lemma dispatch_unsupported:
  "\<not> closed (c (conn s)) \<Longrightarrow> input (c (conn s)) = t # rest \<Longrightarrow> tbl t = None \<Longrightarrow>
   dispatch Read tbl s =
     s\<lparr>conn := (conn s)\<lparr>c := (c (conn s))\<lparr>input := rest\<rparr>\<rparr>,
       stdout := stdout s @ [''error: unsupported message type'']\<rparr>"
  by (subst dispatch.simps) (simp add: readUint8_def Printf_def)

lemma dispatch_parse_fails:
  "\<not> closed (c (conn s)) \<Longrightarrow> input (c (conn s)) = t # bs \<Longrightarrow> tbl t = Some m \<Longrightarrow>
   Read m ((conn s)\<lparr>c := (c (conn s))\<lparr>input := bs\<rparr>\<rparr>) = (k, cn, Inl e) \<Longrightarrow>
   dispatch Read tbl s =
     s\<lparr>conn := cn\<lparr>c := (c (conn s))\<lparr>input := drop k bs\<rparr>, config := config (conn s)\<rparr>,
       stdout := stdout s @ [''error: parsing message'' @ [CHR 0x0A]]\<rparr>"
  by (subst dispatch.simps) (simp add: readUint8_def Println_def advance_def)

lemma wire_config: "wire tbl Read cn ps cn' \<Longrightarrow> config cn' = config cn"
  by (induction rule: wire.induct) simp_all

lemma wire_closed: "wire tbl Read cn ps cn' \<Longrightarrow> closed (c cn') = closed (c cn)"
  by (induction rule: wire.induct) simp_all

text \<open>
  With a consumer channel, reading a prefix of well-formed messages sends them on the
  channel in wire order and leaves the loop at the position behind them.
\<close>

lemma dispatch_wire_delivers:
  assumes "wire tbl Read cn ps cn'"
  shows "conn s = cn \<Longrightarrow> ServerMessageCh (config cn) = Some ch \<Longrightarrow>
         dispatch Read tbl s =
           dispatch Read tbl (s\<lparr>conn := cn', delivered := delivered s @ ps\<rparr>)"
  using assms
proof (induction arbitrary: s rule: wire.induct)
  case (wire_end cn)
  then show ?case by (cases s) simp
next
  case (wire_message cn t bs m k cn1 p ps cn')
  let ?cn2 = "cn1\<lparr>c := (c cn)\<lparr>input := drop k bs\<rparr>, config := config cn\<rparr>"
  let ?s2 = "s\<lparr>conn := ?cn2, delivered := delivered s @ [p]\<rparr>"
  have first: "dispatch Read tbl s = dispatch Read tbl ?s2"
    using wire_message.hyps(1-4) wire_message.prems
    by (subst dispatch.simps) (simp add: readUint8_def advance_def)
  have "dispatch Read tbl ?s2 =
        dispatch Read tbl (?s2\<lparr>conn := cn', delivered := delivered ?s2 @ ps\<rparr>)"
    using wire_message.prems by (intro wire_message.IH) simp_all
  with first show ?case by simp
qed

text \<open>Without a consumer channel, the same prefix is read and one line is logged for each.\<close>

lemma dispatch_wire_discards:
  assumes "wire tbl Read cn ps cn'"
  shows "conn s = cn \<Longrightarrow> ServerMessageCh (config cn) = None \<Longrightarrow>
         dispatch Read tbl s =
           dispatch Read tbl
             (s\<lparr>conn := cn',
                stdout := stdout s @
                  replicate (length ps)
                    (''ignoring message; no server message channel'' @ [CHR 0x0A])\<rparr>)"
  using assms
proof (induction arbitrary: s rule: wire.induct)
  case (wire_end cn)
  then show ?case by (cases s) simp
next
  case (wire_message cn t bs m k cn1 p ps cn')
  let ?line = "''ignoring message; no server message channel'' @ [CHR 0x0A]"
  let ?cn2 = "cn1\<lparr>c := (c cn)\<lparr>input := drop k bs\<rparr>, config := config cn\<rparr>"
  let ?s2 = "s\<lparr>conn := ?cn2, stdout := stdout s @ [?line]\<rparr>"
  have first: "dispatch Read tbl s = dispatch Read tbl ?s2"
    using wire_message.hyps(1-4) wire_message.prems
    by (subst dispatch.simps) (simp add: readUint8_def advance_def Println_def)
  have "dispatch Read tbl ?s2 =
        dispatch Read tbl
          (?s2\<lparr>conn := cn', stdout := stdout ?s2 @ replicate (length ps) ?line\<rparr>)"
    using wire_message.prems by (intro wire_message.IH) simp_all
  with first show ?case by (simp add: replicate_app_Cons_same)
qed

text \<open>
  The loop ends at one of its three \<^verbatim>\<open>break\<close> statements, each of which logs its own
  line last.
\<close>

lemma dispatch_stdout:
  "\<exists>pre l. stdout (dispatch Read tbl s) = pre @ [l] \<and>
     l \<in> {''error: reading from server'' @ [CHR 0x0A], ''error: unsupported message type'',
           ''error: parsing message'' @ [CHR 0x0A]}"
proof (induction Read tbl s rule: dispatch.induct)
  case (1 Read tbl s)
  obtain r nc where rd: "readUint8 (c (conn s)) = (r, nc)"
    by force
  show ?case
  proof (cases r)
    case (Inl e)
    with rd show ?thesis
      by (subst dispatch.simps) (simp add: Println_def)
  next
    case rt: (Inr t)
    show ?thesis
    proof (cases "tbl t")
      case None
      with rd rt show ?thesis
        by (subst dispatch.simps) (simp add: Printf_def)
    next
      case (Some m)
      obtain k cn res where rr: "Read m ((conn s)\<lparr>c := nc\<rparr>) = (k, cn, res)"
        using prod_cases3 by blast
      show ?thesis
      proof (cases res)
        case (Inl e)
        with rd rt Some rr show ?thesis
          by (subst dispatch.simps) (simp add: Println_def)
      next
        case rp: (Inr p)
        show ?thesis
        proof (cases "ServerMessageCh (config (conn s))")
          case None
          with rd rt Some rr rp
            "1.IH"(1) [OF rd [symmetric] rt Some rr [symmetric] refl refl rp]
          show ?thesis
            by (subst dispatch.simps) simp
        next
          case ch: (Some h)
          with rd rt Some rr rp
            "1.IH"(2) [OF rd [symmetric] rt Some rr [symmetric] refl refl rp]
          show ?thesis
            by (subst dispatch.simps) simp
        qed
      qed
    qed
  qed
qed

lemma dispatch_no_channel:
  "ServerMessageCh (config (conn s)) = None \<Longrightarrow> delivered (dispatch Read tbl s) = delivered s"
proof (induction Read tbl s rule: dispatch.induct)
  case (1 Read tbl s)
  obtain r nc where rd: "readUint8 (c (conn s)) = (r, nc)"
    by force
  show ?case
  proof (cases r)
    case (Inl e)
    with rd show ?thesis
      by (subst dispatch.simps) simp
  next
    case rt: (Inr t)
    show ?thesis
    proof (cases "tbl t")
      case None
      with rd rt show ?thesis
        by (subst dispatch.simps) simp
    next
      case (Some m)
      obtain k cn res where rr: "Read m ((conn s)\<lparr>c := nc\<rparr>) = (k, cn, res)"
        using prod_cases3 by blast
      show ?thesis
      proof (cases res)
        case (Inl e)
        with rd rt Some rr show ?thesis
          by (subst dispatch.simps) simp
      next
        case rp: (Inr p)
        from "1.prems" rd rt Some rr rp
          "1.IH"(1) [OF rd [symmetric] rt Some rr [symmetric] refl refl rp]
        show ?thesis
          by (subst dispatch.simps) simp
      qed
    qed
  qed
qed

text \<open>The example table and two example streams, evaluated once.\<close>

lemma exConfig_fields:
  "ServerMessages exConfig =
     Some [FramebufferUpdateMessage, SetColorMapEntriesMessage, BellMessage,
           ServerCutTextMessage]"
  "ServerMessageCh exConfig = Some 0"
  by (simp_all add: exConfig_def NewClientConfig_def)

lemma exRun_fields:
  "config (conn (exRun cfg bs)) = cfg"
  "c (conn (exRun cfg bs)) = \<lparr>input = bs, closed = False\<rparr>"
  "stdout (exRun cfg bs) = []"
  "delivered (exRun cfg bs) = []"
  by (simp_all add: exRun_def newClientConn_def)

lemma ex_table:
  "serverMessages exType
     [FramebufferUpdateMessage, SetColorMapEntriesMessage, BellMessage, ServerCutTextMessage] =
   [0 \<mapsto> FramebufferUpdateMessage, 1 \<mapsto> SetColorMapEntriesMessage, 2 \<mapsto> BellMessage,
    3 \<mapsto> ServerCutTextMessage]"
  by (simp add: serverMessages_def exType_def)

section \<open>ListenAndHandle: the claims\<close>

text \<open>
  Claim C3, evaluated where it fails. The configuration declares one new message type
  (code 255) and, as the doc comment of \<^verbatim>\<open>ClientConfig.ServerMessages\<close> allows, none of
  the RFC-required ones. The lookup table then has no entry for framebuffer update,
  set-color-map-entries, bell or server-cut-text, and a stream that holds one bell
  message is rejected as unsupported: nothing is delivered.
\<close>

theorem mandated_types_not_registered:
  "serverMessages exType [OtherServerMessage 255] (exType FramebufferUpdateMessage) = None \<and>
   serverMessages exType [OtherServerMessage 255] (exType SetColorMapEntriesMessage) = None \<and>
   serverMessages exType [OtherServerMessage 255] (exType BellMessage) = None \<and>
   serverMessages exType [OtherServerMessage 255] (exType ServerCutTextMessage) = None \<and>
   delivered (snd (ListenAndHandle exType exRead
     (exRun (exConfig\<lparr>ServerMessages := Some [OtherServerMessage 255]\<rparr>) [2]))) = [] \<and>
   stdout (snd (ListenAndHandle exType exRead
     (exRun (exConfig\<lparr>ServerMessages := Some [OtherServerMessage 255]\<rparr>) [2]))) =
     [''error: unsupported message type'', ''VNC Client connection closed.'' @ [CHR 0x0A]]"
proof -
  let ?s = "exRun (exConfig\<lparr>ServerMessages := Some [OtherServerMessage 255]\<rparr>) [2]"
  have tbl: "serverMessages exType [OtherServerMessage 255] = [255 \<mapsto> OtherServerMessage 255]"
    by (simp add: serverMessages_def exType_def)
  have "dispatch exRead (serverMessages exType [OtherServerMessage 255]) ?s =
        ?s\<lparr>conn := (conn ?s)\<lparr>c := (c (conn ?s))\<lparr>input := []\<rparr>\<rparr>,
           stdout := stdout ?s @ [''error: unsupported message type'']\<rparr>"
    by (rule dispatch_unsupported [where t = 2]) (simp_all add: exRun_fields tbl)
  then show ?thesis
    by (simp add: ListenAndHandle_def exRun_fields deferred_Close_fields tbl exType_def)
qed

text \<open>
  Claim C4. The configured list is \<open>ms\<close>, the connection is open, the stream starts with
  well-formed messages of registered types that decode to \<open>ps\<close>, and the next byte \<open>t\<close>
  is the type code of no message in \<open>ms\<close>. Then \<^verbatim>\<open>ListenAndHandle\<close> delivers exactly \<open>ps\<close>
  to the consumer channel (or nothing, if no channel is configured), reads nothing behind
  the byte \<open>t\<close>, logs the unsupported type as its last action before closing, and leaves
  the connection closed.
\<close>

theorem unsupported_type_is_fatal:
  assumes "ServerMessages (config (conn s)) = Some ms"
    and "\<not> closed (c (conn s))"
    and "wire (serverMessages Type ms) Read (conn s) ps cn'"
    and "input (c cn') = t # rest"
    and "t \<notin> Type ` set ms"
  shows "delivered (snd (ListenAndHandle Type Read s)) =
           delivered s @
           (case ServerMessageCh (config (conn s)) of None \<Rightarrow> [] | Some ch \<Rightarrow> ps) \<and>
         input (c (conn (snd (ListenAndHandle Type Read s)))) = rest \<and>
         closed (c (conn (snd (ListenAndHandle Type Read s)))) \<and>
         stdout (snd (ListenAndHandle Type Read s)) =
           stdout s @
           (case ServerMessageCh (config (conn s)) of
              None \<Rightarrow> replicate (length ps)
                        (''ignoring message; no server message channel'' @ [CHR 0x0A])
            | Some ch \<Rightarrow> []) @
           [''error: unsupported message type'',
            ''VNC Client connection closed.'' @ [CHR 0x0A]]"
proof -
  let ?tbl = "serverMessages Type ms"
  have unregistered: "?tbl t = None"
    using assms(5) by (simp add: serverMessages_None_iff)
  have still_open: "\<not> closed (c cn')"
    using assms(2,3) by (simp add: wire_closed)
  show ?thesis
  proof (cases "ServerMessageCh (config (conn s))")
    case None
    let ?s' = "s\<lparr>conn := cn', stdout := stdout s @ replicate (length ps)
                 (''ignoring message; no server message channel'' @ [CHR 0x0A])\<rparr>"
    have "dispatch Read ?tbl s = dispatch Read ?tbl ?s'"
      using assms(3) None by (intro dispatch_wire_discards) simp_all
    also have "\<dots> = ?s'\<lparr>conn := (conn ?s')\<lparr>c := (c (conn ?s'))\<lparr>input := rest\<rparr>\<rparr>,
                       stdout := stdout ?s' @ [''error: unsupported message type'']\<rparr>"
      using still_open assms(4) unregistered by (intro dispatch_unsupported) simp_all
    finally show ?thesis
      using assms(1) None by (simp add: ListenAndHandle_def deferred_Close_fields)
  next
    case (Some ch)
    let ?s' = "s\<lparr>conn := cn', delivered := delivered s @ ps\<rparr>"
    have "dispatch Read ?tbl s = dispatch Read ?tbl ?s'"
      using assms(3) Some by (intro dispatch_wire_delivers) simp_all
    also have "\<dots> = ?s'\<lparr>conn := (conn ?s')\<lparr>c := (c (conn ?s'))\<lparr>input := rest\<rparr>\<rparr>,
                       stdout := stdout ?s' @ [''error: unsupported message type'']\<rparr>"
      using still_open assms(4) unregistered by (intro dispatch_unsupported) simp_all
    finally show ?thesis
      using assms(1) Some by (simp add: ListenAndHandle_def deferred_Close_fields)
  qed
qed

text \<open>
  The stream: a server-cut-text message with the two bytes 104, 105, then the
  unregistered type byte 9, then a bell message that is never read.
\<close>

theorem unsupported_type_is_fatal_witness:
  "ServerMessages (config (conn (exRun exConfig [3, 2, 104, 105, 9, 2]))) =
     Some [FramebufferUpdateMessage, SetColorMapEntriesMessage, BellMessage,
           ServerCutTextMessage] \<and>
   \<not> closed (c (conn (exRun exConfig [3, 2, 104, 105, 9, 2]))) \<and>
   wire (serverMessages exType
           [FramebufferUpdateMessage, SetColorMapEntriesMessage, BellMessage,
            ServerCutTextMessage])
     exRead (conn (exRun exConfig [3, 2, 104, 105, 9, 2])) [[104, 105]]
     (newClientConn \<lparr>input = [9, 2], closed = False\<rparr> exConfig) \<and>
   9 \<notin> exType ` set [FramebufferUpdateMessage, SetColorMapEntriesMessage, BellMessage,
                       ServerCutTextMessage] \<and>
   delivered (snd (ListenAndHandle exType exRead (exRun exConfig [3, 2, 104, 105, 9, 2]))) =
     [[104, 105]] \<and>
   input (c (conn (snd (ListenAndHandle exType exRead
     (exRun exConfig [3, 2, 104, 105, 9, 2]))))) = [2] \<and>
   closed (c (conn (snd (ListenAndHandle exType exRead
     (exRun exConfig [3, 2, 104, 105, 9, 2]))))) \<and>
   stdout (snd (ListenAndHandle exType exRead (exRun exConfig [3, 2, 104, 105, 9, 2]))) =
     [''error: unsupported message type'', ''VNC Client connection closed.'' @ [CHR 0x0A]]"
proof -
  let ?ms = "[FramebufferUpdateMessage, SetColorMapEntriesMessage, BellMessage,
              ServerCutTextMessage] :: byte ServerMessage list"
  let ?s = "exRun exConfig [3, 2, 104, 105, 9, 2]"
  let ?cn' = "newClientConn \<lparr>input = [9, 2], closed = False\<rparr> exConfig
                :: (byte ServerMessage, unit) ClientConn"
  have cfg: "ServerMessages (config (conn ?s)) = Some ?ms"
    by (simp add: exRun_fields exConfig_fields)
  have opn: "\<not> closed (c (conn ?s))"
    by (simp add: exRun_fields)
  have w: "wire (serverMessages exType ?ms) exRead (conn ?s) [[104, 105]] ?cn'"
    by (simp add: wire_Cons_iff wire_Nil_iff ex_table exRun_def newClientConn_def exRead_def)
  have nxt: "input (c ?cn') = 9 # [2]"
    by (simp add: newClientConn_def)
  have unreg: "9 \<notin> exType ` set ?ms"
    by (simp add: exType_def)
  from cfg opn w unreg unsupported_type_is_fatal [OF cfg opn w nxt unreg]
  show ?thesis
    by (simp add: exRun_fields exConfig_fields)
qed

text \<open>
  Claim C5. The configured list is \<open>ms\<close>, a consumer channel is configured, and the
  stream consists of well-formed messages of registered types that decode to \<open>ps\<close>, with
  nothing behind them. Then the messages sent on the channel by \<^verbatim>\<open>ListenAndHandle\<close> are
  exactly \<open>ps\<close>, in the order of the wire, behind what the channel held before.
\<close>

theorem delivers_in_wire_order:
  assumes "ServerMessages (config (conn s)) = Some ms"
    and "ServerMessageCh (config (conn s)) = Some ch"
    and "wire (serverMessages Type ms) Read (conn s) ps cn'"
    and "input (c cn') = []"
  shows "delivered (snd (ListenAndHandle Type Read s)) = delivered s @ ps"
proof -
  let ?tbl = "serverMessages Type ms"
  let ?s' = "s\<lparr>conn := cn', delivered := delivered s @ ps\<rparr>"
  have "dispatch Read ?tbl s = dispatch Read ?tbl ?s'"
    using assms(2,3) by (intro dispatch_wire_delivers) simp_all
  also have "\<dots> = ?s'\<lparr>stdout := stdout ?s' @ [''error: reading from server'' @ [CHR 0x0A]]\<rparr>"
    using assms(4) by (intro dispatch_read_fails) simp
  finally show ?thesis
    using assms(1) by (simp add: ListenAndHandle_def deferred_Close_fields)
qed

text \<open>The stream: a server-cut-text message with the bytes 104, 105, then a bell.\<close>

theorem delivers_in_wire_order_witness:
  "ServerMessages (config (conn (exRun exConfig [3, 2, 104, 105, 2]))) =
     Some [FramebufferUpdateMessage, SetColorMapEntriesMessage, BellMessage,
           ServerCutTextMessage] \<and>
   ServerMessageCh (config (conn (exRun exConfig [3, 2, 104, 105, 2]))) = Some 0 \<and>
   wire (serverMessages exType
           [FramebufferUpdateMessage, SetColorMapEntriesMessage, BellMessage,
            ServerCutTextMessage])
     exRead (conn (exRun exConfig [3, 2, 104, 105, 2])) [[104, 105], []]
     (newClientConn \<lparr>input = [], closed = False\<rparr> exConfig) \<and>
   delivered (snd (ListenAndHandle exType exRead (exRun exConfig [3, 2, 104, 105, 2]))) =
     [[104, 105], []]"
proof -
  let ?ms = "[FramebufferUpdateMessage, SetColorMapEntriesMessage, BellMessage,
              ServerCutTextMessage] :: byte ServerMessage list"
  let ?s = "exRun exConfig [3, 2, 104, 105, 2]"
  let ?cn' = "newClientConn \<lparr>input = [], closed = False\<rparr> exConfig
                :: (byte ServerMessage, unit) ClientConn"
  have cfg: "ServerMessages (config (conn ?s)) = Some ?ms"
    by (simp add: exRun_fields exConfig_fields)
  have ch: "ServerMessageCh (config (conn ?s)) = Some 0"
    by (simp add: exRun_fields exConfig_fields)
  have w: "wire (serverMessages exType ?ms) exRead (conn ?s) [[104, 105], []] ?cn'"
    by (simp add: wire_Cons_iff wire_Nil_iff ex_table exRun_def newClientConn_def exRead_def)
  have ended: "input (c ?cn') = []"
    by (simp add: newClientConn_def)
  from cfg ch w delivers_in_wire_order [OF cfg ch w ended]
  show ?thesis
    by (simp add: exRun_fields)
qed


text \<open>
  Claim C6. When the list of server message types is configured, \<^verbatim>\<open>ListenAndHandle\<close>
  returns nil whatever ended the loop: the loop's last log line is that of a failed read,
  of an unsupported type or of a decode error, and the returned error does not depend on
  which.
\<close>

theorem termination_cause_not_returned:
  assumes "ServerMessages (config (conn s)) = Some ms"
  shows "fst (ListenAndHandle Type Read s) = None \<and>
         (\<exists>pre cause.
            stdout (snd (ListenAndHandle Type Read s)) =
              pre @ [cause, ''VNC Client connection closed.'' @ [CHR 0x0A]] \<and>
            cause \<in> {''error: reading from server'' @ [CHR 0x0A],
                      ''error: unsupported message type'',
                      ''error: parsing message'' @ [CHR 0x0A]})"
proof -
  obtain pre l where "stdout (dispatch Read (serverMessages Type ms) s) = pre @ [l]"
    and "l \<in> {''error: reading from server'' @ [CHR 0x0A],
               ''error: unsupported message type'',
               ''error: parsing message'' @ [CHR 0x0A]}"
    using dispatch_stdout [of Read "serverMessages Type ms" s] by blast
  then show ?thesis
    using assms by (simp add: ListenAndHandle_def deferred_Close_fields)
qed

text \<open>
  Three streams, one for each cause: the empty stream (the read fails), the unregistered
  type byte 9, and a server-cut-text message that announces five bytes and has one (the
  decoder fails). The log tells them apart, the returned error does not.
\<close>

theorem termination_cause_not_returned_witness:
  "ServerMessages (config (conn (exRun exConfig []))) =
     Some [FramebufferUpdateMessage, SetColorMapEntriesMessage, BellMessage,
           ServerCutTextMessage] \<and>
   fst (ListenAndHandle exType exRead (exRun exConfig [])) = None \<and>
   stdout (snd (ListenAndHandle exType exRead (exRun exConfig []))) =
     [''error: reading from server'' @ [CHR 0x0A],
      ''VNC Client connection closed.'' @ [CHR 0x0A]] \<and>
   fst (ListenAndHandle exType exRead (exRun exConfig [9])) = None \<and>
   stdout (snd (ListenAndHandle exType exRead (exRun exConfig [9]))) =
     [''error: unsupported message type'',
      ''VNC Client connection closed.'' @ [CHR 0x0A]] \<and>
   fst (ListenAndHandle exType exRead (exRun exConfig [3, 5, 1])) = None \<and>
   stdout (snd (ListenAndHandle exType exRead (exRun exConfig [3, 5, 1]))) =
     [''error: parsing message'' @ [CHR 0x0A],
      ''VNC Client connection closed.'' @ [CHR 0x0A]]"
proof -
  let ?ms = "[FramebufferUpdateMessage, SetColorMapEntriesMessage, BellMessage,
              ServerCutTextMessage] :: byte ServerMessage list"
  have cfg: "ServerMessages (config (conn (exRun exConfig bs))) = Some ?ms" for bs
    by (simp add: exRun_fields exConfig_fields)
  have nil: "fst (ListenAndHandle exType exRead (exRun exConfig bs)) = None" for bs
    using termination_cause_not_returned [OF cfg] by blast
  let ?s1 = "exRun exConfig []"
  have "dispatch exRead (serverMessages exType ?ms) ?s1 =
        ?s1\<lparr>stdout := stdout ?s1 @ [''error: reading from server'' @ [CHR 0x0A]]\<rparr>"
    by (rule dispatch_read_fails) (simp add: exRun_fields)
  then have out1: "stdout (snd (ListenAndHandle exType exRead ?s1)) =
      [''error: reading from server'' @ [CHR 0x0A],
       ''VNC Client connection closed.'' @ [CHR 0x0A]]"
    by (simp add: ListenAndHandle_def deferred_Close_fields exRun_fields exConfig_fields)
  let ?s2 = "exRun exConfig [9]"
  have "dispatch exRead (serverMessages exType ?ms) ?s2 =
        ?s2\<lparr>conn := (conn ?s2)\<lparr>c := (c (conn ?s2))\<lparr>input := []\<rparr>\<rparr>,
            stdout := stdout ?s2 @ [''error: unsupported message type'']\<rparr>"
    by (rule dispatch_unsupported [where t = 9]) (simp_all add: exRun_fields ex_table)
  then have out2: "stdout (snd (ListenAndHandle exType exRead ?s2)) =
      [''error: unsupported message type'',
       ''VNC Client connection closed.'' @ [CHR 0x0A]]"
    by (simp add: ListenAndHandle_def deferred_Close_fields exRun_fields exConfig_fields)
  let ?s3 = "exRun exConfig [3, 5, 1]"
  have "dispatch exRead (serverMessages exType ?ms) ?s3 =
        ?s3\<lparr>conn := ((conn ?s3)\<lparr>c := (c (conn ?s3))\<lparr>input := [5, 1]\<rparr>\<rparr>)
                     \<lparr>c := (c (conn ?s3))\<lparr>input := drop 2 [5, 1]\<rparr>,
                      config := config (conn ?s3)\<rparr>,
            stdout := stdout ?s3 @ [''error: parsing message'' @ [CHR 0x0A]]\<rparr>"
    by (rule dispatch_parse_fails [where t = 3 and m = ServerCutTextMessage and e = EOF])
      (simp_all add: exRun_fields ex_table exRead_def)
  then have out3: "stdout (snd (ListenAndHandle exType exRead ?s3)) =
      [''error: parsing message'' @ [CHR 0x0A],
       ''VNC Client connection closed.'' @ [CHR 0x0A]]"
    by (simp add: ListenAndHandle_def deferred_Close_fields exRun_fields exConfig_fields)
  from cfg [of "[]"] nil [of "[]"] nil [of "[9]"] nil [of "[3, 5, 1]"] out1 out2 out3
  show ?thesis
    by blast
qed

text \<open>
  Claim C7. Whatever the configuration, the decoders and the stream, the connection is
  closed when \<^verbatim>\<open>ListenAndHandle\<close> returns: the deferred \<^verbatim>\<open>Close\<close> runs on the early
  return for a missing message list as well as behind the loop.
\<close>

theorem ListenAndHandle_always_closes:
  "closed (c (conn (snd (ListenAndHandle Type Read s))))"
  by (simp add: ListenAndHandle_def deferred_Close_fields split: option.splits)

text \<open>
  Claim C8. When the configured list of server message types is nil,
  \<^verbatim>\<open>ListenAndHandle\<close> returns the configuration error, and the stream holds the same
  bytes as before the call: no byte was read, and nothing was delivered.
\<close>

theorem nil_ServerMessages_is_config_error:
  assumes "ServerMessages (config (conn s)) = None"
  shows "fst (ListenAndHandle Type Read s) =
           Some (VNCError ''Client config error: ServerMessages undefined'') \<and>
         input (c (conn (snd (ListenAndHandle Type Read s)))) = input (c (conn s)) \<and>
         delivered (snd (ListenAndHandle Type Read s)) = delivered s"
  using assms by (simp add: ListenAndHandle_def deferred_Close_fields NewVNCError_def)

theorem nil_ServerMessages_is_config_error_witness:
  "ServerMessages (config (conn (exRun (exConfig\<lparr>ServerMessages := None\<rparr>) [2]))) = None \<and>
   fst (ListenAndHandle exType exRead (exRun (exConfig\<lparr>ServerMessages := None\<rparr>) [2])) =
     Some (VNCError ''Client config error: ServerMessages undefined'') \<and>
   input (c (conn (snd (ListenAndHandle exType exRead
     (exRun (exConfig\<lparr>ServerMessages := None\<rparr>) [2]))))) = [2] \<and>
   delivered (snd (ListenAndHandle exType exRead
     (exRun (exConfig\<lparr>ServerMessages := None\<rparr>) [2]))) = []"
proof -
  have cfg: "ServerMessages (config (conn (exRun (exConfig\<lparr>ServerMessages := None\<rparr>) [2]))) = None"
    by (simp add: exRun_fields)
  from cfg nil_ServerMessages_is_config_error [OF cfg, of exType exRead] show ?thesis
    by (simp add: exRun_fields)
qed

text \<open>
  Claim C9. No consumer channel is configured, the configured list is \<open>ms\<close>, and the
  stream starts with well-formed messages of registered types that decode to \<open>ps\<close>. Then
  every one of them is discarded and the loop goes on reading: \<^verbatim>\<open>ListenAndHandle\<close>
  behaves as it does when started behind these messages, with one line logged for each.
  Nothing is delivered, and the returned error is nil.
\<close>

theorem no_channel_discards_and_continues:
  assumes "ServerMessages (config (conn s)) = Some ms"
    and "ServerMessageCh (config (conn s)) = None"
    and "wire (serverMessages Type ms) Read (conn s) ps cn'"
  shows "ListenAndHandle Type Read s =
           ListenAndHandle Type Read
             (s\<lparr>conn := cn',
                stdout := stdout s @ replicate (length ps)
                  (''ignoring message; no server message channel'' @ [CHR 0x0A])\<rparr>) \<and>
         fst (ListenAndHandle Type Read s) = None \<and>
         delivered (snd (ListenAndHandle Type Read s)) = delivered s"
proof -
  let ?tbl = "serverMessages Type ms"
  let ?s' = "s\<lparr>conn := cn', stdout := stdout s @ replicate (length ps)
               (''ignoring message; no server message channel'' @ [CHR 0x0A])\<rparr>"
  have cfg: "config cn' = config (conn s)"
    using assms(3) by (rule wire_config)
  have "dispatch Read ?tbl s = dispatch Read ?tbl ?s'"
    using assms(2,3) by (intro dispatch_wire_discards) simp_all
  then have continues: "ListenAndHandle Type Read s = ListenAndHandle Type Read ?s'"
    using assms(1) cfg by (simp add: ListenAndHandle_def)
  have nil: "fst (ListenAndHandle Type Read s) = None"
    using assms(1) by (simp add: ListenAndHandle_def)
  have "delivered (dispatch Read ?tbl s) = delivered s"
    using assms(2) by (rule dispatch_no_channel)
  then have kept: "delivered (snd (ListenAndHandle Type Read s)) = delivered s"
    using assms(1) by (simp add: ListenAndHandle_def deferred_Close_fields)
  from continues nil kept show ?thesis
    by blast
qed

text \<open>
  The stream: a bell, a server-cut-text message with the byte 7, a bell. The
  configuration is the one \<^verbatim>\<open>NewClientConfig\<close> returns, which has no channel.
\<close>

theorem no_channel_discards_and_continues_witness:
  "ServerMessages (config (conn (exRun (NewClientConfig ''secret'') [2, 3, 1, 7, 2]))) =
     Some [FramebufferUpdateMessage, SetColorMapEntriesMessage, BellMessage,
           ServerCutTextMessage] \<and>
   ServerMessageCh (config (conn (exRun (NewClientConfig ''secret'') [2, 3, 1, 7, 2]))) = None \<and>
   wire (serverMessages exType
           [FramebufferUpdateMessage, SetColorMapEntriesMessage, BellMessage,
            ServerCutTextMessage])
     exRead (conn (exRun (NewClientConfig ''secret'') [2, 3, 1, 7, 2])) [[], [7], []]
     (newClientConn \<lparr>input = [], closed = False\<rparr> (NewClientConfig ''secret'')) \<and>
   ListenAndHandle exType exRead (exRun (NewClientConfig ''secret'') [2, 3, 1, 7, 2]) =
     ListenAndHandle exType exRead
       ((exRun (NewClientConfig ''secret'') [])
          \<lparr>stdout := replicate 3
             (''ignoring message; no server message channel'' @ [CHR 0x0A])\<rparr>) \<and>
   fst (ListenAndHandle exType exRead (exRun (NewClientConfig ''secret'') [2, 3, 1, 7, 2])) =
     None \<and>
   delivered (snd (ListenAndHandle exType exRead
     (exRun (NewClientConfig ''secret'') [2, 3, 1, 7, 2]))) = []"
proof -
  let ?ms = "[FramebufferUpdateMessage, SetColorMapEntriesMessage, BellMessage,
              ServerCutTextMessage] :: byte ServerMessage list"
  let ?s = "exRun (NewClientConfig ''secret'') [2, 3, 1, 7, 2]"
  let ?cn' = "newClientConn \<lparr>input = [], closed = False\<rparr> (NewClientConfig ''secret'')
                :: (byte ServerMessage, unit) ClientConn"
  have cfg: "ServerMessages (config (conn ?s)) = Some ?ms"
    by (simp add: exRun_fields NewClientConfig_def)
  have ch: "ServerMessageCh (config (conn ?s)) = None"
    by (simp add: exRun_fields NewClientConfig_def)
  have w: "wire (serverMessages exType ?ms) exRead (conn ?s) [[], [7], []] ?cn'"
    by (simp add: wire_Cons_iff wire_Nil_iff ex_table exRun_def newClientConn_def exRead_def)
  have same: "?s\<lparr>conn := ?cn', stdout := stdout ?s @ replicate (length [[], [7], [] :: byte list])
                 (''ignoring message; no server message channel'' @ [CHR 0x0A])\<rparr> =
              (exRun (NewClientConfig ''secret'') [])
                \<lparr>stdout := replicate 3
                   (''ignoring message; no server message channel'' @ [CHR 0x0A])\<rparr>"
    by (simp add: exRun_def numeral_3_eq_3)
  have nothing_sent: "delivered ?s = []"
    by (simp add: exRun_fields)
  from cfg ch w no_channel_discards_and_continues [OF cfg ch w, unfolded same nothing_sent]
  show ?thesis
    by blast
qed


end
